theory Spec2Isabelle
  imports
    Main
    "HOL-Library.Word"
    "HOL-Library.Char_ord"
    "HOL-Library.List_Lexorder"
    "HOL-Library.AList"
begin

section \<open>The BlackRoad Go client: configuration, request building, retry loop\<close>

text \<open>
  A shallow embedding of \<^verbatim>\<open>src/go/client.go\<close> together with the error
  constructors of the Go package (\<^verbatim>\<open>errors.go\<close>). Go strings are byte
  sequences and are modelled as \<^typ>\<open>string\<close>; Go's \<^verbatim>\<open>int\<close> and
  \<^verbatim>\<open>time.Duration\<close> are 64-bit, and every place where the source can
  overflow is computed on \<^typ>\<open>64 word\<close>.
\<close>

subsection \<open>Errors\<close>

record Error =
  Message :: string
  Code :: string
  StatusCode :: int

text \<open>
  The typed errors embed \<^verbatim>\<open>*Error\<close> and add their own field. The cause of
  a \<^verbatim>\<open>ConnectionError\<close> is an opaque \<^verbatim>\<open>error\<close> of the standard
  library; only its text is kept.
\<close>

datatype err =
    PlainError Error
  | AuthenticationError Error
  | NotFoundError Error string
  | RateLimitError Error int
  | ValidationError Error string
  | ConnectionError Error string

definition NewAuthenticationError :: "string \<Rightarrow> err" where
  "NewAuthenticationError message =
     AuthenticationError \<lparr>Message = message, Code = ''AUTHENTICATION_ERROR'', StatusCode = 401\<rparr>"

definition NewNotFoundError :: "string \<Rightarrow> err" where
  "NewNotFoundError resource =
     NotFoundError \<lparr>Message = ''resource not found: '' @ resource, Code = ''NOT_FOUND'',
                      StatusCode = 404\<rparr> resource"

definition NewRateLimitError :: "int \<Rightarrow> err" where
  "NewRateLimitError retryAfter =
     RateLimitError \<lparr>Message = ''rate limit exceeded'', Code = ''RATE_LIMIT_EXCEEDED'',
                       StatusCode = 429\<rparr> retryAfter"

definition NewValidationError :: "string \<Rightarrow> err" where
  "NewValidationError details =
     ValidationError \<lparr>Message = ''validation error: '' @ details, Code = ''VALIDATION_ERROR'',
                        StatusCode = 422\<rparr> details"

definition NewConnectionError :: "string \<Rightarrow> string \<Rightarrow> err" where
  "NewConnectionError message cause =
     ConnectionError \<lparr>Message = message, Code = ''CONNECTION_ERROR'', StatusCode = 0\<rparr> cause"

text \<open>The error built in the \<^verbatim>\<open>default\<close> branch of the status switch.\<close>

definition ApiError :: "int \<Rightarrow> string \<Rightarrow> err" where
  "ApiError status respBody =
     PlainError \<lparr>Message = ''API error: '' @ respBody, Code = ''API_ERROR'', StatusCode = status\<rparr>"

text \<open>The error returned after the loop when no attempt left an error behind.\<close>

definition MaxRetriesExceeded :: err where
  "MaxRetriesExceeded = PlainError \<lparr>Message = ''max retries exceeded'', Code = [], StatusCode = 0\<rparr>"

subsection \<open>Strings\<close>

definition HasSuffix :: "string \<Rightarrow> string \<Rightarrow> bool" where
  "HasSuffix s suf = (length s \<ge> length suf \<and> drop (length s - length suf) s = suf)"

definition TrimSuffix :: "string \<Rightarrow> string \<Rightarrow> string" where
  "TrimSuffix s suf = (if HasSuffix s suf then take (length s - length suf) s else s)"

definition HasPrefix :: "string \<Rightarrow> string \<Rightarrow> bool" where
  "HasPrefix s pre = (length s \<ge> length pre \<and> take (length pre) s = pre)"

definition TrimPrefix :: "string \<Rightarrow> string \<Rightarrow> string" where
  "TrimPrefix s pre = (if HasPrefix s pre then drop (length pre) s else s)"

subsection \<open>Configuration and construction\<close>

definition defaultBaseURL :: string where
  "defaultBaseURL = ''https://api.blackroad.io/v1''"

text \<open>Durations are nanoseconds, as \<^verbatim>\<open>time.Duration\<close> is.\<close>

definition Second :: int where
  "Second = 1000000000"

definition defaultTimeout :: int where
  "defaultTimeout = 30 * Second"

definition defaultMaxRetries :: int where
  "defaultMaxRetries = 3"

record http_Client =
  http_Timeout :: int

record ClientConfig =
  APIKey :: string
  BaseURL :: string
  Timeout :: int
  MaxRetries :: int
  HTTPClient :: "http_Client option"

text \<open>
  The three API modules of the client only hold a pointer back to it and are left out.
\<close>

record Client =
  apiKey :: string
  baseURL :: string
  timeout :: int
  maxRetries :: int
  httpClient :: http_Client

text \<open>The process environment; \<^verbatim>\<open>os.Getenv\<close> gives the empty string for an unset name.\<close>

type_synonym environ = "string \<rightharpoonup> string"

definition Getenv :: "environ \<Rightarrow> string \<Rightarrow> string" where
  "Getenv env name = (case env name of None \<Rightarrow> [] | Some v \<Rightarrow> v)"

definition emptyConfig :: ClientConfig where
  "emptyConfig = \<lparr>APIKey = [], BaseURL = [], Timeout = 0, MaxRetries = 0, HTTPClient = None\<rparr>"

definition NewClient :: "environ \<Rightarrow> ClientConfig option \<Rightarrow> err + Client" where
  "NewClient env config0 =
     (let config = (case config0 of None \<Rightarrow> emptyConfig | Some cfg \<Rightarrow> cfg);
          apiKey1 = APIKey config;
          apiKey2 = (if apiKey1 = [] then Getenv env ''BLACKROAD_API_KEY'' else apiKey1)
      in if apiKey2 = [] then
           Inl (NewAuthenticationError
             ''API key required. Set BLACKROAD_API_KEY environment variable or pass APIKey in config.'')
         else
           let baseURL1 = BaseURL config;
               baseURL2 = (if baseURL1 = [] then Getenv env ''BLACKROAD_API_URL'' else baseURL1);
               baseURL3 = (if baseURL2 = [] then defaultBaseURL else baseURL2);
               baseURL4 = TrimSuffix baseURL3 ''/'';
               timeout1 = Timeout config;
               timeout2 = (if timeout1 = 0 then defaultTimeout else timeout1);
               maxRetries1 = MaxRetries config;
               maxRetries2 = (if maxRetries1 = 0 then defaultMaxRetries else maxRetries1);
               httpClient1 = (case HTTPClient config of
                                None \<Rightarrow> \<lparr>http_Timeout = timeout2\<rparr>
                              | Some h \<Rightarrow> h)
           in Inr \<lparr>apiKey = apiKey2, baseURL = baseURL4, timeout = timeout2,
                   maxRetries = maxRetries2, httpClient = httpClient1\<rparr>)"

subsection \<open>Query strings: \<^verbatim>\<open>url.Values\<close> and its \<^verbatim>\<open>Encode\<close>\<close>

text \<open>
  \<^verbatim>\<open>url.Values\<close> is a Go map from a key to its list of values. It is modelled
  as an association list with one entry per key, kept in the order in which the keys were
  first set, so that the order the map itself forgets can still be talked about.
  \<^verbatim>\<open>Set\<close> replaces the values of a key, as the resource modules use it.
\<close>

type_synonym Values = "(string \<times> string list) list"

definition Values_Set :: "string \<Rightarrow> string \<Rightarrow> Values \<Rightarrow> Values" where
  "Values_Set key val v = AList.update key [val] v"

definition Values_lookup :: "Values \<Rightarrow> string \<Rightarrow> string list" where
  "Values_lookup v key = (case map_of v key of None \<Rightarrow> [] | Some vs \<Rightarrow> vs)"

definition upperhex :: "nat \<Rightarrow> char" where
  "upperhex n = ''0123456789ABCDEF'' ! n"

text \<open>\<^verbatim>\<open>shouldEscape\<close> in the mode \<^verbatim>\<open>encodeQueryComponent\<close>.\<close>

definition shouldEscape :: "char \<Rightarrow> bool" where
  "shouldEscape c =
     (if (CHR ''a'' \<le> c \<and> c \<le> CHR ''z'') \<or> (CHR ''A'' \<le> c \<and> c \<le> CHR ''Z'')
         \<or> (CHR ''0'' \<le> c \<and> c \<le> CHR ''9'') then False
      else if c = CHR ''-'' \<or> c = CHR ''_'' \<or> c = CHR ''.'' \<or> c = CHR ''~'' then False
      else True)"

fun QueryEscape :: "string \<Rightarrow> string" where
  "QueryEscape [] = []"
| "QueryEscape (c # s) =
     (if shouldEscape c then
        (if c = CHR '' '' then CHR ''+'' # QueryEscape s
         else CHR ''%'' # upperhex (of_char c div 16) # upperhex (of_char c mod 16) # QueryEscape s)
      else c # QueryEscape s)"

text \<open>The two nested loops of \<^verbatim>\<open>Encode\<close>, with the string builder as accumulator.\<close>

fun Encode_values :: "string \<Rightarrow> string list \<Rightarrow> string \<Rightarrow> string" where
  "Encode_values keyEscaped [] buf = buf"
| "Encode_values keyEscaped (x # vs) buf =
     Encode_values keyEscaped vs
       ((if length buf > 0 then buf @ ''&'' else buf) @ keyEscaped @ ''='' @ QueryEscape x)"

fun Encode_keys :: "Values \<Rightarrow> string list \<Rightarrow> string \<Rightarrow> string" where
  "Encode_keys v [] buf = buf"
| "Encode_keys v (k # keys) buf =
     Encode_keys v keys (Encode_values (QueryEscape k) (Values_lookup v k) buf)"

definition Encode :: "Values \<Rightarrow> string" where
  "Encode v = (if length v = 0 then [] else Encode_keys v (sort (map fst v)) [])"

subsection \<open>Requests, responses and the runtime\<close>

record http_Request =
  req_Method :: string
  req_URL :: string
  req_Header :: "(string \<times> string) list"
  req_Body :: string

text \<open>
  What \<^verbatim>\<open>httpClient.Do\<close> gives back: an error, or a response whose body
  \<^verbatim>\<open>io.ReadAll\<close> then reads (\<open>Inr\<close> the bytes) or fails to read
  (\<open>Inl\<close> the cause).
\<close>

datatype do_result =
    DoError string
  | DoResponse int "(string \<times> string list) list" "string + string"

definition Header_Get :: "(string \<times> string list) list \<Rightarrow> string \<Rightarrow> string" where
  "Header_Get h key = (case map_of h key of None \<Rightarrow> [] | Some [] \<Rightarrow> [] | Some (x # _) \<Rightarrow> x)"

text \<open>
  The standard library and the network, as far as \<^verbatim>\<open>request\<close> depends on them:
  \<^item> \<open>Marshal\<close> is \<^verbatim>\<open>json.Marshal\<close> (\<open>Inl\<close> its error);
  \<^item> \<open>NewRequest_err\<close> is the error of \<^verbatim>\<open>http.NewRequestWithContext\<close> for a
    method and a URL, \<open>None\<close> when the request is created;
  \<^item> \<open>Do\<close> is the outcome of the \<open>n\<close>-th send of the call, together with the number of
    bytes the transport has read from the request's body reader by then.
\<close>

record 'b runtime =
  Marshal :: "'b \<Rightarrow> string + string"
  NewRequest_err :: "string \<Rightarrow> string \<Rightarrow> string option"
  Do :: "nat \<Rightarrow> http_Request \<Rightarrow> nat \<times> do_result"

text \<open>
  The body reader is a \<^verbatim>\<open>*bytes.Reader\<close>, modelled by its unread bytes
  (\<open>None\<close> for the nil reader). \<^verbatim>\<open>http.NewRequestWithContext\<close> takes the
  unread bytes as the body of the request.
\<close>

definition NewRequestWithContext ::
  "'b runtime \<Rightarrow> string \<Rightarrow> string \<Rightarrow> string option \<Rightarrow> string + http_Request" where
  "NewRequestWithContext rt method url bodyReader =
     (case NewRequest_err rt method url of
        Some cause \<Rightarrow> Inl cause
      | None \<Rightarrow> Inr \<lparr>req_Method = method, req_URL = url, req_Header = [],
                     req_Body = (case bodyReader of None \<Rightarrow> [] | Some unread \<Rightarrow> unread)\<rparr>)"

definition Header_Set :: "string \<Rightarrow> string \<Rightarrow> http_Request \<Rightarrow> http_Request" where
  "Header_Set key val req = req\<lparr>req_Header := AList.update key val (req_Header req)\<rparr>"

subsection \<open>Parsing and durations\<close>

text \<open>
  \<^verbatim>\<open>strconv.Atoi\<close>: an optional sign, then one or more decimal digits, and the
  value must fit a 64-bit \<^verbatim>\<open>int\<close>; anything else is an error.
\<close>

definition isDigit :: "char \<Rightarrow> bool" where
  "isDigit c = (CHR ''0'' \<le> c \<and> c \<le> CHR ''9'')"

definition digits_value :: "string \<Rightarrow> int" where
  "digits_value ds = foldl (\<lambda>n c. n * 10 + (of_char c - 48)) 0 ds"

definition Atoi :: "string \<Rightarrow> int option" where
  "Atoi s =
     (let neg = (s \<noteq> [] \<and> hd s = CHR ''-'');
          ds = (if s \<noteq> [] \<and> (hd s = CHR ''-'' \<or> hd s = CHR ''+'') then tl s else s)
      in if ds = [] \<or> \<not> list_all isDigit ds then None
         else
           let n = digits_value ds;
               v = (if neg then - n else n)
           in if - (2 ^ 63) \<le> v \<and> v < 2 ^ 63 then Some v else None)"

text \<open>
  \<^verbatim>\<open>time.Duration(1<<attempt) * time.Second\<close> and
  \<^verbatim>\<open>time.Duration(retryAfter) * time.Second\<close>, computed in 64 bits and read
  back as signed nanoseconds.
\<close>

definition backoffDelay :: "int \<Rightarrow> int" where
  "backoffDelay attempt = sint (push_bit (nat attempt) (1 :: 64 word) * 1000000000)"

definition retryAfterDelay :: "int \<Rightarrow> int" where
  "retryAfterDelay retryAfter = sint ((word_of_int retryAfter :: 64 word) * 1000000000)"

subsection \<open>The request loop\<close>

text \<open>What a call does to the outside, in order: requests handed to the transport and sleeps.\<close>

datatype event = Send http_Request | Sleep int

text \<open>The URL of a call (the first lines of \<^verbatim>\<open>request\<close>).\<close>

definition buildURL :: "Client \<Rightarrow> string \<Rightarrow> Values \<Rightarrow> string" where
  "buildURL c endpoint params =
     (let fullURL = baseURL c @ ''/'' @ TrimPrefix endpoint ''/''
      in if length params > 0 then fullURL @ ''?'' @ Encode params else fullURL)"

text \<open>
  The body reader of a call: nil for a nil body, else a reader over the marshalled body,
  created once, before the loop.
\<close>

definition newBodyReader :: "'b runtime \<Rightarrow> 'b option \<Rightarrow> string + string option" where
  "newBodyReader rt body =
     (case body of
        None \<Rightarrow> Inr None
      | Some b \<Rightarrow> (case Marshal rt b of Inl cause \<Rightarrow> Inl cause | Inr jsonBody \<Rightarrow> Inr (Some jsonBody)))"

text \<open>The three headers set on the request of every attempt.\<close>

definition setHeaders :: "Client \<Rightarrow> http_Request \<Rightarrow> http_Request" where
  "setHeaders c req =
     Header_Set ''User-Agent'' ''blackroad-go/1.0.0''
       (Header_Set ''Content-Type'' ''application/json''
         (Header_Set ''Authorization'' (''Bearer '' @ apiKey c) req))"

text \<open>The \<^verbatim>\<open>retryAfter\<close> of the branch for status 429.\<close>

definition parseRetryAfter :: "(string \<times> string list) list \<Rightarrow> int" where
  "parseRetryAfter hdr =
     (let ra = Header_Get hdr ''Retry-After''
      in if ra \<noteq> [] then (case Atoi ra of Some parsed \<Rightarrow> parsed | None \<Rightarrow> 1) else 1)"

text \<open>
  The loop \<^verbatim>\<open>for attempt := 0; attempt < c.maxRetries; attempt++\<close> with the
  statements after it. Its state is the attempt counter, the unread bytes of the body
  reader, \<^verbatim>\<open>lastErr\<close> and the events so far.
\<close>

function request_loop ::
  "Client \<Rightarrow> 'b runtime \<Rightarrow> string \<Rightarrow> string \<Rightarrow> string \<Rightarrow> int \<Rightarrow> string option \<Rightarrow> err option
     \<Rightarrow> event list \<Rightarrow> (err + string) \<times> event list" where
  "request_loop c rt method endpoint fullURL attempt bodyReader lastErr tr =
     (if attempt < maxRetries c then
        (case NewRequestWithContext rt method fullURL bodyReader of
           Inl cause \<Rightarrow> (Inl (NewConnectionError ''failed to create request'' cause), tr)
         | Inr req0 \<Rightarrow>
             let req = setHeaders c req0;
                 sent = Do rt (nat attempt) req;
                 unread = map_option (drop (fst sent)) bodyReader;
                 tr1 = tr @ [Send req]
             in (case snd sent of
                   DoError cause \<Rightarrow>
                     request_loop c rt method endpoint fullURL (attempt + 1) unread
                       (Some (NewConnectionError ''request failed'' cause))
                       (tr1 @ [Sleep (backoffDelay attempt)])
                 | DoResponse status hdr body \<Rightarrow>
                     (case body of
                        Inl cause \<Rightarrow>
                          request_loop c rt method endpoint fullURL (attempt + 1) unread
                            (Some (NewConnectionError ''failed to read response'' cause)) tr1
                      | Inr respBody \<Rightarrow>
                          if 200 \<le> status \<and> status < 300 then (Inr respBody, tr1)
                          else if status = 401 then
                            (Inl (NewAuthenticationError ''invalid API key''), tr1)
                          else if status = 404 then (Inl (NewNotFoundError endpoint), tr1)
                          else if status = 422 then (Inl (NewValidationError respBody), tr1)
                          else if status = 429 then
                            (let retryAfter = parseRetryAfter hdr
                             in if attempt < maxRetries c - 1 then
                                  request_loop c rt method endpoint fullURL (attempt + 1) unread
                                    lastErr (tr1 @ [Sleep (retryAfterDelay retryAfter)])
                                else (Inl (NewRateLimitError retryAfter), tr1))
                          else
                            request_loop c rt method endpoint fullURL (attempt + 1) unread
                              (Some (ApiError status respBody)) tr1)))
      else (case lastErr of
              Some e \<Rightarrow> (Inl e, tr)
            | None \<Rightarrow> (Inl MaxRetriesExceeded, tr)))"
  by pat_completeness auto
termination
  by (relation "measure (\<lambda>(c, rt, method, endpoint, fullURL, attempt, bodyReader, lastErr, tr).
                  nat (maxRetries c - attempt))") auto

declare request_loop.simps [simp del]

definition request ::
  "Client \<Rightarrow> 'b runtime \<Rightarrow> string \<Rightarrow> string \<Rightarrow> 'b option \<Rightarrow> Values
     \<Rightarrow> (err + string) \<times> event list" where
  "request c rt method endpoint body params =
     (let fullURL = buildURL c endpoint params
      in case newBodyReader rt body of
           Inl cause \<Rightarrow> (Inl (NewConnectionError ''failed to marshal request body'' cause), [])
         | Inr bodyReader \<Rightarrow> request_loop c rt method endpoint fullURL 0 bodyReader None [])"

text \<open>The requests and the sleeps of a trace.\<close>

fun sends :: "event list \<Rightarrow> http_Request list" where
  "sends [] = []"
| "sends (Send r # es) = r # sends es"
| "sends (Sleep d # es) = sends es"

fun sleeps :: "event list \<Rightarrow> int list" where
  "sleeps [] = []"
| "sleeps (Send r # es) = sleeps es"
| "sleeps (Sleep d # es) = d # sleeps es"

text \<open>
  The request that attempt builds when \<^verbatim>\<open>http.NewRequestWithContext\<close> succeeds.
\<close>

definition attemptRequest :: "Client \<Rightarrow> string \<Rightarrow> string \<Rightarrow> string option \<Rightarrow> http_Request" where
  "attemptRequest c method fullURL bodyReader =
     setHeaders c \<lparr>req_Method = method, req_URL = fullURL, req_Header = [],
                   req_Body = (case bodyReader of None \<Rightarrow> [] | Some unread \<Rightarrow> unread)\<rparr>"

subsection \<open>Concrete clients and transports\<close>

text \<open>
  A client with a given retry count. A body for the examples is either a value that
  \<^verbatim>\<open>json.Marshal\<close> encodes to the given bytes, or one that it rejects (a channel,
  a function, a NaN). The transport of \<open>scripted\<close> reads the whole request body and
  answers the \<open>n\<close>-th send of a call with the \<open>n\<close>-th entry of a script (a transport
  error once the script is used up).
\<close>

definition exampleClient :: "int \<Rightarrow> Client" where
  "exampleClient n =
     \<lparr>apiKey = ''k'', baseURL = ''http://h'', timeout = 30000000000, maxRetries = n,
      httpClient = \<lparr>http_Timeout = 30000000000\<rparr>\<rparr>"

text \<open>An environment in which every variable is set, to \<open>5\<close>.\<close>

definition envAllSet :: environ where
  "envAllSet name = Some ''5''"

datatype body_value = Encodes string | Unsupported

definition json_Marshal :: "body_value \<Rightarrow> string + string" where
  "json_Marshal b = (case b of Encodes jsonBody \<Rightarrow> Inr jsonBody
                     | Unsupported \<Rightarrow> Inl ''json: unsupported type'')"

definition scripted :: "do_result list \<Rightarrow> body_value runtime" where
  "scripted script =
     \<lparr>Marshal = json_Marshal, NewRequest_err = (\<lambda>method url. None),
      Do = (\<lambda>n req. (length (req_Body req),
                      if n < length script then script ! n else DoError ''EOF''))\<rparr>"

text \<open>Three rate-limited responses: a numeric header, none, and one that does not parse.\<close>

definition script429 :: "do_result list" where
  "script429 = [DoResponse 429 [(''Retry-After'', [''2''])] (Inr []),
                DoResponse 429 [] (Inr []),
                DoResponse 429 [(''Retry-After'', [''soon''])] (Inr [])]"

definition hdrs429 :: "nat \<Rightarrow> (string \<times> string list) list" where
  "hdrs429 n = [[(''Retry-After'', [''2''])], [], [(''Retry-After'', [''soon''])]] ! n"

text \<open>
  The query string written out the way the documentation of \<^verbatim>\<open>Encode\<close> describes
  it: the \<open>key=value\<close> pairs joined by \<open>&\<close>.
\<close>

fun join_amp :: "string list \<Rightarrow> string" where
  "join_amp [] = []"
| "join_amp [x] = x"
| "join_amp (x # y # ys) = x @ ''&'' @ join_amp (y # ys)"

definition pairs_by_key :: "Values \<Rightarrow> (string \<times> string) list" where
  "pairs_by_key v = concat (map (\<lambda>k. map (Pair k) (Values_lookup v k)) (sort (map fst v)))"

definition query_string :: "(string \<times> string) list \<Rightarrow> string" where
  "query_string kvs = join_amp (map (\<lambda>kv. QueryEscape (fst kv) @ ''='' @ QueryEscape (snd kv)) kvs)"

section \<open>Construction\<close>

subsection \<open>Trimming one trailing separator\<close>

lemma HasSuffix_slash: "HasSuffix s ''/'' \<longleftrightarrow> s \<noteq> [] \<and> last s = CHR ''/''"
  by (cases s rule: rev_cases) (auto simp: HasSuffix_def)

lemma TrimSuffix_slash:
  "TrimSuffix s ''/'' = (if s \<noteq> [] \<and> last s = CHR ''/'' then butlast s else s)"
  by (simp add: TrimSuffix_def HasSuffix_slash butlast_conv_take)

lemma HasSuffix_snoc2: "HasSuffix (zs @ [z, y]) ''//'' \<longleftrightarrow> z = CHR ''/'' \<and> y = CHR ''/''"
  by (simp add: HasSuffix_def)

lemma TrimSuffix_no_trailing:
  assumes "\<not> HasSuffix s ''//''"
  shows "\<not> HasSuffix (TrimSuffix s ''/'') ''/''"
proof (cases s rule: rev_cases)
  case Nil
  then show ?thesis by (simp add: TrimSuffix_slash HasSuffix_slash)
next
  case (snoc ys y)
  note s = this
  show ?thesis
  proof (cases ys rule: rev_cases)
    case Nil
    with s show ?thesis by (simp add: TrimSuffix_slash HasSuffix_slash)
  next
    case (snoc zs z)
    with s assms have "\<not> (z = CHR ''/'' \<and> y = CHR ''/'')"
      by (simp add: HasSuffix_snoc2)
    with s snoc show ?thesis by (auto simp: TrimSuffix_slash HasSuffix_slash butlast_append)
  qed
qed

lemma TrimSuffix_default: "TrimSuffix defaultBaseURL ''/'' = ''https://api.blackroad.io/v1''"
  by (simp add: TrimSuffix_slash defaultBaseURL_def)

subsection \<open>The fields of a constructed client\<close>

lemma NewClient_Inr:
  assumes "NewClient env config = Inr c"
    and cfg: "cfg = (case config of None \<Rightarrow> emptyConfig | Some x \<Rightarrow> x)"
  shows "apiKey c = (if APIKey cfg = [] then Getenv env ''BLACKROAD_API_KEY'' else APIKey cfg)"
    and "apiKey c \<noteq> []"
    and "baseURL c = TrimSuffix (if BaseURL cfg \<noteq> [] then BaseURL cfg
           else if Getenv env ''BLACKROAD_API_URL'' \<noteq> [] then Getenv env ''BLACKROAD_API_URL''
           else defaultBaseURL) ''/''"
    and "timeout c = (if Timeout cfg = 0 then defaultTimeout else Timeout cfg)"
    and "maxRetries c = (if MaxRetries cfg = 0 then defaultMaxRetries else MaxRetries cfg)"
proof -
  let ?k = "if APIKey cfg = [] then Getenv env ''BLACKROAD_API_KEY'' else APIKey cfg"
  from assms(1) have k: "?k \<noteq> []"
    unfolding NewClient_def Let_def cfg by (simp split: if_splits)
  with assms(1) have c: "c = \<lparr>apiKey = ?k,
      baseURL = TrimSuffix (if BaseURL cfg \<noteq> [] then BaseURL cfg
           else if Getenv env ''BLACKROAD_API_URL'' \<noteq> [] then Getenv env ''BLACKROAD_API_URL''
           else defaultBaseURL) ''/'',
      timeout = (if Timeout cfg = 0 then defaultTimeout else Timeout cfg),
      maxRetries = (if MaxRetries cfg = 0 then defaultMaxRetries else MaxRetries cfg),
      httpClient = (case HTTPClient cfg of
          None \<Rightarrow> \<lparr>http_Timeout = (if Timeout cfg = 0 then defaultTimeout else Timeout cfg)\<rparr>
        | Some h \<Rightarrow> h)\<rparr>"
    unfolding NewClient_def Let_def cfg by (auto split: if_splits)
  show "apiKey c = ?k" by (simp add: c)
  show "apiKey c \<noteq> []" using k by (simp add: c)
  show "baseURL c = TrimSuffix (if BaseURL cfg \<noteq> [] then BaseURL cfg
           else if Getenv env ''BLACKROAD_API_URL'' \<noteq> [] then Getenv env ''BLACKROAD_API_URL''
           else defaultBaseURL) ''/''" by (simp add: c)
  show "timeout c = (if Timeout cfg = 0 then defaultTimeout else Timeout cfg)" by (simp add: c)
  show "maxRetries c = (if MaxRetries cfg = 0 then defaultMaxRetries else MaxRetries cfg)"
    by (simp add: c)
qed

text \<open>
  Claim C7. When the configuration gives no API key (a nil configuration or an empty
  \<^verbatim>\<open>APIKey\<close>) and \<^verbatim>\<open>BLACKROAD_API_KEY\<close> is unset or empty,
  \<^verbatim>\<open>NewClient\<close> returns the authentication error and no client. As every request
  is a method of a client, none can be sent.
\<close>

theorem NewClient_no_credential:
  assumes "(case config of None \<Rightarrow> [] | Some cfg \<Rightarrow> APIKey cfg) = []"
    and "Getenv env ''BLACKROAD_API_KEY'' = []"
  shows "NewClient env config = Inl (NewAuthenticationError
      ''API key required. Set BLACKROAD_API_KEY environment variable or pass APIKey in config.'')
    \<and> (\<forall>c. NewClient env config \<noteq> Inr c)"
  using assms by (cases config) (simp_all add: NewClient_def emptyConfig_def)

theorem NewClient_no_credential_witness:
  "(case None of None \<Rightarrow> [] | Some cfg \<Rightarrow> APIKey cfg) = []
   \<and> Getenv Map.empty ''BLACKROAD_API_KEY'' = []
   \<and> NewClient Map.empty None = Inl (AuthenticationError
        \<lparr>Message = ''API key required. Set BLACKROAD_API_KEY environment variable or pass APIKey in config.'',
         Code = ''AUTHENTICATION_ERROR'', StatusCode = 401\<rparr>)"
  using NewClient_no_credential [of None Map.empty]
  by (simp add: Getenv_def NewAuthenticationError_def)

lemma NewClient_total:
  assumes cfg: "cfg = (case config of None \<Rightarrow> emptyConfig | Some x \<Rightarrow> x)"
    and key: "(if APIKey cfg = [] then Getenv env ''BLACKROAD_API_KEY'' else APIKey cfg) \<noteq> []"
  shows "NewClient env config = Inr
     \<lparr>apiKey = (if APIKey cfg = [] then Getenv env ''BLACKROAD_API_KEY'' else APIKey cfg),
      baseURL = TrimSuffix (if BaseURL cfg \<noteq> [] then BaseURL cfg
           else if Getenv env ''BLACKROAD_API_URL'' \<noteq> [] then Getenv env ''BLACKROAD_API_URL''
           else defaultBaseURL) ''/'',
      timeout = (if Timeout cfg = 0 then defaultTimeout else Timeout cfg),
      maxRetries = (if MaxRetries cfg = 0 then defaultMaxRetries else MaxRetries cfg),
      httpClient = (case HTTPClient cfg of
          None \<Rightarrow> \<lparr>http_Timeout = (if Timeout cfg = 0 then defaultTimeout else Timeout cfg)\<rparr>
        | Some h \<Rightarrow> h)\<rparr>"
  using key unfolding NewClient_def Let_def cfg by (auto split: if_splits)

text \<open>
  Claim C8, as the code has it. \<^verbatim>\<open>NewClient\<close> fails only when neither the
  configuration nor \<^verbatim>\<open>BLACKROAD_API_KEY\<close> gives a key (there is no default key);
  otherwise it builds a client. Its API key is the explicit one when set, else the value of
  \<^verbatim>\<open>BLACKROAD_API_KEY\<close>; its base URL is the explicit one when set, else the value
  of \<^verbatim>\<open>BLACKROAD_API_URL\<close> when set, else \<^verbatim>\<open>https://api.blackroad.io/v1\<close>
  (each with its trailing separator trimmed). Timeout and retry count have two tiers only:
  the explicit value when set, else 30 seconds and 3; no environment changes them. "Set"
  means different from Go's zero value.
\<close>

theorem NewClient_precedence:
  assumes "cfg = (case config of None \<Rightarrow> emptyConfig | Some x \<Rightarrow> x)"
  shows "(APIKey cfg = [] \<and> Getenv env ''BLACKROAD_API_KEY'' = [] \<longrightarrow>
            NewClient env config = Inl (NewAuthenticationError
              ''API key required. Set BLACKROAD_API_KEY environment variable or pass APIKey in config.''))
    \<and> (APIKey cfg \<noteq> [] \<or> Getenv env ''BLACKROAD_API_KEY'' \<noteq> [] \<longrightarrow>
         (\<exists>c. NewClient env config = Inr c
            \<and> (APIKey cfg \<noteq> [] \<longrightarrow> apiKey c = APIKey cfg)
            \<and> (APIKey cfg = [] \<longrightarrow> apiKey c = Getenv env ''BLACKROAD_API_KEY'')
            \<and> (BaseURL cfg \<noteq> [] \<longrightarrow> baseURL c = TrimSuffix (BaseURL cfg) ''/'')
            \<and> (BaseURL cfg = [] \<and> Getenv env ''BLACKROAD_API_URL'' \<noteq> []
                  \<longrightarrow> baseURL c = TrimSuffix (Getenv env ''BLACKROAD_API_URL'') ''/'')
            \<and> (BaseURL cfg = [] \<and> Getenv env ''BLACKROAD_API_URL'' = []
                  \<longrightarrow> baseURL c = ''https://api.blackroad.io/v1'')
            \<and> (Timeout cfg \<noteq> 0 \<longrightarrow> timeout c = Timeout cfg)
            \<and> (Timeout cfg = 0 \<longrightarrow> timeout c = 30 * 1000000000)
            \<and> (MaxRetries cfg \<noteq> 0 \<longrightarrow> maxRetries c = MaxRetries cfg)
            \<and> (MaxRetries cfg = 0 \<longrightarrow> maxRetries c = 3)
            \<and> (\<forall>env' c'. NewClient env' config = Inr c'
                  \<longrightarrow> timeout c' = timeout c \<and> maxRetries c' = maxRetries c)))"
proof (intro conjI impI)
  assume "APIKey cfg = [] \<and> Getenv env ''BLACKROAD_API_KEY'' = []"
  then show "NewClient env config = Inl (NewAuthenticationError
      ''API key required. Set BLACKROAD_API_KEY environment variable or pass APIKey in config.'')"
    unfolding NewClient_def Let_def assms by simp
next
  assume "APIKey cfg \<noteq> [] \<or> Getenv env ''BLACKROAD_API_KEY'' \<noteq> []"
  then have key: "(if APIKey cfg = [] then Getenv env ''BLACKROAD_API_KEY'' else APIKey cfg) \<noteq> []"
    by auto
  note t = NewClient_total [OF assms key]
  have ind: "timeout c' = (if Timeout cfg = 0 then defaultTimeout else Timeout cfg)
      \<and> maxRetries c' = (if MaxRetries cfg = 0 then defaultMaxRetries else MaxRetries cfg)"
    if "NewClient env' config = Inr c'" for env' c'
    using NewClient_Inr(4,5) [OF that assms] by simp
  show "\<exists>c. NewClient env config = Inr c
            \<and> (APIKey cfg \<noteq> [] \<longrightarrow> apiKey c = APIKey cfg)
            \<and> (APIKey cfg = [] \<longrightarrow> apiKey c = Getenv env ''BLACKROAD_API_KEY'')
            \<and> (BaseURL cfg \<noteq> [] \<longrightarrow> baseURL c = TrimSuffix (BaseURL cfg) ''/'')
            \<and> (BaseURL cfg = [] \<and> Getenv env ''BLACKROAD_API_URL'' \<noteq> []
                  \<longrightarrow> baseURL c = TrimSuffix (Getenv env ''BLACKROAD_API_URL'') ''/'')
            \<and> (BaseURL cfg = [] \<and> Getenv env ''BLACKROAD_API_URL'' = []
                  \<longrightarrow> baseURL c = ''https://api.blackroad.io/v1'')
            \<and> (Timeout cfg \<noteq> 0 \<longrightarrow> timeout c = Timeout cfg)
            \<and> (Timeout cfg = 0 \<longrightarrow> timeout c = 30 * 1000000000)
            \<and> (MaxRetries cfg \<noteq> 0 \<longrightarrow> maxRetries c = MaxRetries cfg)
            \<and> (MaxRetries cfg = 0 \<longrightarrow> maxRetries c = 3)
            \<and> (\<forall>env' c'. NewClient env' config = Inr c'
                  \<longrightarrow> timeout c' = timeout c \<and> maxRetries c' = maxRetries c)"
    unfolding t using ind
    by (simp add: TrimSuffix_default defaultTimeout_def Second_def defaultMaxRetries_def)
qed

theorem NewClient_precedence_witness:
  "Getenv [''BLACKROAD_API_KEY'' \<mapsto> ''envkey'', ''BLACKROAD_API_URL'' \<mapsto> ''http://env.example/'']
      ''BLACKROAD_API_KEY'' \<noteq> []
   \<and> (\<exists>c. NewClient [''BLACKROAD_API_KEY'' \<mapsto> ''envkey'', ''BLACKROAD_API_URL'' \<mapsto> ''http://env.example/'']
            None = Inr c
          \<and> apiKey c = ''envkey'' \<and> baseURL c = ''http://env.example''
          \<and> timeout c = 30000000000 \<and> maxRetries c = 3)
   \<and> (\<exists>c. NewClient [''BLACKROAD_API_KEY'' \<mapsto> ''envkey'', ''BLACKROAD_API_URL'' \<mapsto> ''http://env.example/'']
            (Some \<lparr>APIKey = ''k'', BaseURL = ''http://x/'', Timeout = 5000000000,
                    MaxRetries = 5, HTTPClient = None\<rparr>) = Inr c
          \<and> apiKey c = ''k'' \<and> baseURL c = ''http://x''
          \<and> timeout c = 5000000000 \<and> maxRetries c = 5)"
proof -
  let ?env = "[''BLACKROAD_API_KEY'' \<mapsto> ''envkey'', ''BLACKROAD_API_URL'' \<mapsto> ''http://env.example/'']"
  let ?cfg = "\<lparr>APIKey = ''k'', BaseURL = ''http://x/'', Timeout = 5000000000,
                    MaxRetries = 5, HTTPClient = None\<rparr>"
  have k: "Getenv ?env ''BLACKROAD_API_KEY'' = ''envkey''"
    and u: "Getenv ?env ''BLACKROAD_API_URL'' = ''http://env.example/''"
    by (simp_all add: Getenv_def)
  have t1: "TrimSuffix ''http://env.example/'' ''/'' = ''http://env.example''"
    and t2: "TrimSuffix ''http://x/'' ''/'' = ''http://x''"
    by (simp_all add: TrimSuffix_def HasSuffix_def)
  have a: "\<exists>c. NewClient ?env None = Inr c
          \<and> apiKey c = ''envkey'' \<and> baseURL c = ''http://env.example''
          \<and> timeout c = 30000000000 \<and> maxRetries c = 3"
    using NewClient_precedence [of emptyConfig None ?env]
    by (simp add: k u t1 emptyConfig_def) blast
  have b: "\<exists>c. NewClient ?env (Some ?cfg) = Inr c
          \<and> apiKey c = ''k'' \<and> baseURL c = ''http://x''
          \<and> timeout c = 5000000000 \<and> maxRetries c = 5"
    using NewClient_precedence [of ?cfg "Some ?cfg" ?env]
    by (simp add: t2) blast
  from a b k show ?thesis by simp
qed

text \<open>
  Claim C8 as stated fails for timeout and retry count: with no explicit option and every
  environment variable set to \<open>5\<close>, the key and the base URL come from the environment,
  while the timeout and the retry count are the defaults.
\<close>

theorem NewClient_precedence_counterexample:
  "Getenv envAllSet ''BLACKROAD_API_KEY'' = ''5''
   \<and> NewClient envAllSet None
     = Inr \<lparr>apiKey = ''5'', baseURL = ''5'', timeout = 30000000000, maxRetries = 3,
            httpClient = \<lparr>http_Timeout = 30000000000\<rparr>\<rparr>"
  by (simp add: NewClient_def Let_def Getenv_def envAllSet_def emptyConfig_def TrimSuffix_def
      HasSuffix_def defaultTimeout_def Second_def defaultMaxRetries_def)

text \<open>
  Claim C9, as the code has it. The base URL of a constructed client is the selected
  address (explicit, else environment, else default) with exactly one trailing separator
  removed when there is one. It therefore has no trailing separator whenever the selected
  address does not end in two separators.
\<close>

theorem NewClient_baseURL_trimmed:
  assumes "NewClient env config = Inr c"
    and "cfg = (case config of None \<Rightarrow> emptyConfig | Some x \<Rightarrow> x)"
    and "sel = (if BaseURL cfg \<noteq> [] then BaseURL cfg
           else if Getenv env ''BLACKROAD_API_URL'' \<noteq> [] then Getenv env ''BLACKROAD_API_URL''
           else ''https://api.blackroad.io/v1'')"
  shows "baseURL c = (if sel \<noteq> [] \<and> last sel = CHR ''/'' then butlast sel else sel)
    \<and> (\<not> HasSuffix sel ''//'' \<longrightarrow> \<not> HasSuffix (baseURL c) ''/'')"
proof -
  have b: "baseURL c = TrimSuffix sel ''/''"
    using NewClient_Inr(3) [OF assms(1,2)] assms(3) by (simp add: defaultBaseURL_def)
  show ?thesis
    unfolding b using TrimSuffix_no_trailing [of sel] by (simp add: TrimSuffix_slash)
qed

theorem NewClient_baseURL_trimmed_witness:
  "NewClient Map.empty
      (Some \<lparr>APIKey = ''k'', BaseURL = ''http://h/'', Timeout = 0, MaxRetries = 0, HTTPClient = None\<rparr>)
     = Inr \<lparr>apiKey = ''k'', baseURL = ''http://h'', timeout = 30000000000,
            maxRetries = 3, httpClient = \<lparr>http_Timeout = 30000000000\<rparr>\<rparr>
   \<and> \<not> HasSuffix ''http://h/'' ''//''
   \<and> \<not> HasSuffix (baseURL \<lparr>apiKey = ''k'', baseURL = ''http://h'', timeout = 30000000000,
            maxRetries = 3, httpClient = \<lparr>http_Timeout = 30000000000\<rparr>\<rparr>) ''/''"
proof -
  have h: "NewClient Map.empty
      (Some \<lparr>APIKey = ''k'', BaseURL = ''http://h/'', Timeout = 0, MaxRetries = 0, HTTPClient = None\<rparr>)
     = Inr \<lparr>apiKey = ''k'', baseURL = ''http://h'', timeout = 30000000000,
            maxRetries = 3, httpClient = \<lparr>http_Timeout = 30000000000\<rparr>\<rparr>"
    by (simp add: NewClient_def Getenv_def TrimSuffix_def HasSuffix_def defaultTimeout_def
        Second_def defaultMaxRetries_def)
  have n: "\<not> HasSuffix ''http://h/'' ''//''"
    by (simp add: HasSuffix_def)
  show ?thesis
    using h n NewClient_baseURL_trimmed [OF h, of
        "\<lparr>APIKey = ''k'', BaseURL = ''http://h/'', Timeout = 0, MaxRetries = 0, HTTPClient = None\<rparr>"
        "''http://h/''"]
    by simp
qed

text \<open>
  Claim C9 as stated fails: an explicit base URL that ends in two separators keeps one.
\<close>

theorem NewClient_baseURL_counterexample:
  "NewClient Map.empty
      (Some \<lparr>APIKey = ''k'', BaseURL = ''http://h//'', Timeout = 0, MaxRetries = 0, HTTPClient = None\<rparr>)
     = Inr \<lparr>apiKey = ''k'', baseURL = ''http://h/'', timeout = 30000000000,
            maxRetries = 3, httpClient = \<lparr>http_Timeout = 30000000000\<rparr>\<rparr>
   \<and> HasSuffix ''http://h/'' ''/''"
  by (simp add: NewClient_def Getenv_def TrimSuffix_def HasSuffix_def defaultTimeout_def
      Second_def defaultMaxRetries_def)

section \<open>The request loop\<close>

subsection \<open>One attempt\<close>

lemma request_loop_done:
  assumes "\<not> attempt < maxRetries c"
  shows "request_loop c rt method endpoint fullURL attempt bodyReader lastErr tr =
    (Inl (case lastErr of Some e \<Rightarrow> e | None \<Rightarrow> MaxRetriesExceeded), tr)"
  using assms by (subst request_loop.simps) (simp split: option.split)

lemma NewRequestWithContext_ok:
  assumes "NewRequest_err rt method fullURL = None"
  shows "map_sum id (setHeaders c) (NewRequestWithContext rt method fullURL bodyReader) =
    Inr (attemptRequest c method fullURL bodyReader)"
  using assms by (simp add: NewRequestWithContext_def attemptRequest_def)

lemma request_loop_attempt:
  assumes "attempt < maxRetries c"
    and "NewRequest_err rt method fullURL = None"
    and "req = attemptRequest c method fullURL bodyReader"
    and "Do rt (nat attempt) req = (k, res)"
    and "unread = map_option (drop k) bodyReader"
  shows "request_loop c rt method endpoint fullURL attempt bodyReader lastErr tr =
    (case res of
       DoError cause \<Rightarrow>
         request_loop c rt method endpoint fullURL (attempt + 1) unread
           (Some (NewConnectionError ''request failed'' cause))
           (tr @ [Send req, Sleep (backoffDelay attempt)])
     | DoResponse status hdr body \<Rightarrow>
         (case body of
            Inl cause \<Rightarrow>
              request_loop c rt method endpoint fullURL (attempt + 1) unread
                (Some (NewConnectionError ''failed to read response'' cause)) (tr @ [Send req])
          | Inr respBody \<Rightarrow>
              if 200 \<le> status \<and> status < 300 then (Inr respBody, tr @ [Send req])
              else if status = 401 then
                (Inl (NewAuthenticationError ''invalid API key''), tr @ [Send req])
              else if status = 404 then (Inl (NewNotFoundError endpoint), tr @ [Send req])
              else if status = 422 then (Inl (NewValidationError respBody), tr @ [Send req])
              else if status = 429 then
                (if attempt < maxRetries c - 1 then
                   request_loop c rt method endpoint fullURL (attempt + 1) unread lastErr
                     (tr @ [Send req, Sleep (retryAfterDelay (parseRetryAfter hdr))])
                 else (Inl (NewRateLimitError (parseRetryAfter hdr)), tr @ [Send req]))
              else
                request_loop c rt method endpoint fullURL (attempt + 1) unread
                  (Some (ApiError status respBody)) (tr @ [Send req])))"
  using assms
  by (subst request_loop.simps)
     (auto simp: NewRequestWithContext_def attemptRequest_def Let_def
        split: do_result.split sum.split)

lemma request_loop_terminal:
  assumes "attempt < maxRetries c"
    and "NewRequest_err rt method fullURL = None"
    and "req = attemptRequest c method fullURL bodyReader"
    and "snd (Do rt (nat attempt) req) = DoResponse status hdr (Inr respBody)"
  shows "status = 401 \<Longrightarrow> request_loop c rt method endpoint fullURL attempt bodyReader lastErr tr =
           (Inl (NewAuthenticationError ''invalid API key''), tr @ [Send req])"
    and "status = 404 \<Longrightarrow> request_loop c rt method endpoint fullURL attempt bodyReader lastErr tr =
           (Inl (NewNotFoundError endpoint), tr @ [Send req])"
    and "status = 422 \<Longrightarrow> request_loop c rt method endpoint fullURL attempt bodyReader lastErr tr =
           (Inl (NewValidationError respBody), tr @ [Send req])"
proof -
  obtain k where d: "Do rt (nat attempt) req = (k, DoResponse status hdr (Inr respBody))"
    using assms(4) by (cases "Do rt (nat attempt) req") simp
  note step = request_loop_attempt [OF assms(1,2,3) d refl, of endpoint lastErr tr]
  show "status = 401 \<Longrightarrow> request_loop c rt method endpoint fullURL attempt bodyReader lastErr tr =
           (Inl (NewAuthenticationError ''invalid API key''), tr @ [Send req])"
    by (simp add: step)
  show "status = 404 \<Longrightarrow> request_loop c rt method endpoint fullURL attempt bodyReader lastErr tr =
           (Inl (NewNotFoundError endpoint), tr @ [Send req])"
    by (simp add: step)
  show "status = 422 \<Longrightarrow> request_loop c rt method endpoint fullURL attempt bodyReader lastErr tr =
           (Inl (NewValidationError respBody), tr @ [Send req])"
    by (simp add: step)
qed

text \<open>
  Claim C5. When the first response of a call has status 401, 404 or 422 (and its body is
  read), the call ends there: its only event is the one send, and it returns the
  authentication error, the not-found error for the endpoint, or the validation error
  with the response body. This needs one attempt to be allowed (\<open>maxRetries > 0\<close>), the
  body to marshal and the request to be created.
\<close>

theorem request_terminal_status:
  assumes "0 < maxRetries c"
    and "newBodyReader rt body = Inr bodyReader"
    and "NewRequest_err rt method (buildURL c endpoint params) = None"
    and "req = attemptRequest c method (buildURL c endpoint params) bodyReader"
    and "snd (Do rt 0 req) = DoResponse status hdr (Inr respBody)"
  shows "(status = 401 \<longrightarrow> request c rt method endpoint body params =
            (Inl (NewAuthenticationError ''invalid API key''), [Send req]))
       \<and> (status = 404 \<longrightarrow> request c rt method endpoint body params =
            (Inl (NewNotFoundError endpoint), [Send req]))
       \<and> (status = 422 \<longrightarrow> request c rt method endpoint body params =
            (Inl (NewValidationError respBody), [Send req]))"
proof -
  have d: "snd (Do rt (nat 0) req) = DoResponse status hdr (Inr respBody)"
    using assms(5) by simp
  note t = request_loop_terminal [OF assms(1,3,4) d, of endpoint None "[]"]
  show ?thesis
    using t by (simp add: request_def assms(2))
qed


theorem request_terminal_status_witness:
  "0 < maxRetries (exampleClient 3)
   \<and> newBodyReader (scripted [DoResponse 404 [] (Inr ''missing'')]) None = Inr None
   \<and> request (exampleClient 3) (scripted [DoResponse 404 [] (Inr ''missing'')])
        ''GET'' ''/agents/a1'' None []
      = (Inl (NewNotFoundError ''/agents/a1''),
         [Send (attemptRequest (exampleClient 3) ''GET'' ''http://h/agents/a1'' None)])"
proof -
  let ?rt = "scripted [DoResponse 404 [] (Inr ''missing'')]"
  have u: "buildURL (exampleClient 3) ''/agents/a1'' [] = ''http://h/agents/a1''"
    by (simp add: buildURL_def exampleClient_def TrimPrefix_def HasPrefix_def)
  have 1: "0 < maxRetries (exampleClient 3)" by (simp add: exampleClient_def)
  have 2: "newBodyReader ?rt None = Inr None" by (simp add: newBodyReader_def)
  have 3: "NewRequest_err ?rt ''GET'' (buildURL (exampleClient 3) ''/agents/a1'' []) = None"
    by (simp add: scripted_def)
  have 5: "snd (Do ?rt 0 (attemptRequest (exampleClient 3) ''GET''
              (buildURL (exampleClient 3) ''/agents/a1'' []) None))
           = DoResponse 404 [] (Inr ''missing'')"
    by (simp add: scripted_def)
  show ?thesis
    using request_terminal_status [OF 1 2 3 refl 5] 1 2 by (simp add: u)
qed

lemma retryAfterDelay_in_range:
  assumes "\<bar>v\<bar> \<le> 9223372036"
  shows "retryAfterDelay v = v * Second"
proof -
  have "retryAfterDelay v = sint (word_of_int (v * 1000000000) :: 64 word)"
    by (simp add: retryAfterDelay_def)
  also have "\<dots> = signed_take_bit (LENGTH(64) - 1) (v * 1000000000)"
    by (rule sint_sbintrunc')
  also have "\<dots> = signed_take_bit 63 (v * 1000000000)"
    by simp
  also have "\<dots> = v * 1000000000"
    using assms by (intro signed_take_bit_int_eq_self) simp_all
  finally show ?thesis by (simp add: Second_def)
qed

lemma Atoi_Nil: "Atoi [] = None"
  by (simp add: Atoi_def)

lemma parseRetryAfter_cases:
  "(Header_Get hdr ''Retry-After'' = [] \<longrightarrow> parseRetryAfter hdr = 1)
   \<and> (Atoi (Header_Get hdr ''Retry-After'') = None \<longrightarrow> parseRetryAfter hdr = 1)
   \<and> (Atoi (Header_Get hdr ''Retry-After'') = Some v \<longrightarrow> parseRetryAfter hdr = v)"
  by (auto simp: parseRetryAfter_def Let_def Atoi_Nil)

lemma request_loop_429_retry:
  assumes "attempt < maxRetries c - 1"
    and "NewRequest_err rt method fullURL = None"
    and "Do rt (nat attempt) (attemptRequest c method fullURL bodyReader) =
           (k, DoResponse 429 hdr (Inr respBody))"
  shows "request_loop c rt method endpoint fullURL attempt bodyReader lastErr tr =
     request_loop c rt method endpoint fullURL (attempt + 1) (map_option (drop k) bodyReader)
       lastErr (tr @ [Send (attemptRequest c method fullURL bodyReader),
                      Sleep (retryAfterDelay (parseRetryAfter hdr))])"
proof -
  from assms(1) have a: "attempt < maxRetries c" by simp
  show ?thesis
    using assms(1) by (simp add: request_loop_attempt [OF a assms(2) refl assms(3) refl])
qed

lemma request_loop_429_last:
  assumes "attempt < maxRetries c" and "\<not> attempt < maxRetries c - 1"
    and "NewRequest_err rt method fullURL = None"
    and "Do rt (nat attempt) (attemptRequest c method fullURL bodyReader) =
           (k, DoResponse 429 hdr (Inr respBody))"
  shows "request_loop c rt method endpoint fullURL attempt bodyReader lastErr tr =
     (Inl (NewRateLimitError (parseRetryAfter hdr)),
      tr @ [Send (attemptRequest c method fullURL bodyReader)])"
  using assms(2) by (simp add: request_loop_attempt [OF assms(1) assms(3) refl assms(4) refl])

lemma request_always_429:
  assumes mr: "maxRetries c = 3"
    and br: "newBodyReader rt body = Inr bodyReader"
    and ok: "NewRequest_err rt method (buildURL c endpoint params) = None"
    and always: "\<forall>n<3. \<forall>r. \<exists>k b. Do rt n r = (k, DoResponse 429 (hdrs n) (Inr b))"
  shows "\<exists>r0 r1 r2. request c rt method endpoint body params =
      (Inl (NewRateLimitError (parseRetryAfter (hdrs 2))),
       [Send r0, Sleep (retryAfterDelay (parseRetryAfter (hdrs 0))),
        Send r1, Sleep (retryAfterDelay (parseRetryAfter (hdrs 1))),
        Send r2])"
proof -
  let ?url = "buildURL c endpoint params"
  let ?r0 = "attemptRequest c method ?url bodyReader"
  from always obtain k0 b0 where d0: "Do rt (nat 0) ?r0 = (k0, DoResponse 429 (hdrs 0) (Inr b0))"
    by force
  let ?rd1 = "map_option (drop k0) bodyReader"
  let ?r1 = "attemptRequest c method ?url ?rd1"
  from always obtain k1 b1 where d1: "Do rt (nat (0 + 1)) ?r1 = (k1, DoResponse 429 (hdrs 1) (Inr b1))"
    by force
  let ?rd2 = "map_option (drop k1) ?rd1"
  let ?r2 = "attemptRequest c method ?url ?rd2"
  from always obtain k2 b2 where d2: "Do rt (nat (0 + 1 + 1)) ?r2 = (k2, DoResponse 429 (hdrs 2) (Inr b2))"
    by force
  have a0: "(0::int) < maxRetries c - 1" using mr by simp
  have a1: "(0::int) + 1 < maxRetries c - 1" using mr by simp
  have a2: "(0::int) + 1 + 1 < maxRetries c" "\<not> (0::int) + 1 + 1 < maxRetries c - 1" using mr by simp_all
  have "request c rt method endpoint body params =
      request_loop c rt method endpoint ?url 0 bodyReader None []"
    by (simp add: request_def br)
  also have "\<dots> = request_loop c rt method endpoint ?url (0 + 1) ?rd1 None
      ([] @ [Send ?r0, Sleep (retryAfterDelay (parseRetryAfter (hdrs 0)))])"
    by (rule request_loop_429_retry [OF a0 ok d0])
  also have "\<dots> = request_loop c rt method endpoint ?url (0 + 1 + 1) ?rd2 None
      (([] @ [Send ?r0, Sleep (retryAfterDelay (parseRetryAfter (hdrs 0)))])
        @ [Send ?r1, Sleep (retryAfterDelay (parseRetryAfter (hdrs 1)))])"
    by (rule request_loop_429_retry [OF a1 ok d1])
  also have "\<dots> = (Inl (NewRateLimitError (parseRetryAfter (hdrs 2))),
      (([] @ [Send ?r0, Sleep (retryAfterDelay (parseRetryAfter (hdrs 0)))])
        @ [Send ?r1, Sleep (retryAfterDelay (parseRetryAfter (hdrs 1)))]) @ [Send ?r2])"
    by (rule request_loop_429_last [OF a2 ok d2])
  finally show ?thesis by simp
qed


text \<open>
  Claim C6, as the code has it. For a response with status 429 the retry-after value is
  the integer in the \<^verbatim>\<open>Retry-After\<close> header, and 1 when the header is absent or
  does not parse. While attempts remain the loop sleeps and goes to the next attempt; the
  duration is computed in 64-bit nanoseconds and is exactly that many seconds when the
  value is at most 9223372036 in absolute value. With three attempts and a response that
  is always 429 the call sends exactly three times, sleeps twice, and returns the rate
  limit error carrying the value of the third response.
\<close>

theorem request_rate_limit:
  "(Header_Get hdr ''Retry-After'' = [] \<longrightarrow> parseRetryAfter hdr = 1)
   \<and> (Atoi (Header_Get hdr ''Retry-After'') = None \<longrightarrow> parseRetryAfter hdr = 1)
   \<and> (Atoi (Header_Get hdr ''Retry-After'') = Some v \<longrightarrow> parseRetryAfter hdr = v)
   \<and> (attempt < maxRetries c - 1 \<and> NewRequest_err rt method fullURL = None
        \<and> Do rt (nat attempt) (attemptRequest c method fullURL reader) =
             (k, DoResponse 429 hdr (Inr respBody))
      \<longrightarrow> request_loop c rt method endpoint fullURL attempt reader lastErr tr =
            request_loop c rt method endpoint fullURL (attempt + 1) (map_option (drop k) reader)
              lastErr (tr @ [Send (attemptRequest c method fullURL reader),
                             Sleep (retryAfterDelay (parseRetryAfter hdr))]))
   \<and> (\<bar>parseRetryAfter hdr\<bar> \<le> 9223372036
      \<longrightarrow> retryAfterDelay (parseRetryAfter hdr) = parseRetryAfter hdr * Second)
   \<and> (maxRetries c = 3 \<and> newBodyReader rt body = Inr bodyReader
        \<and> NewRequest_err rt method (buildURL c endpoint params) = None
        \<and> (\<forall>n<3. \<forall>r. \<exists>k b. Do rt n r = (k, DoResponse 429 (hdrs n) (Inr b)))
      \<longrightarrow> (\<exists>r0 r1 r2. request c rt method endpoint body params =
            (Inl (NewRateLimitError (parseRetryAfter (hdrs 2))),
             [Send r0, Sleep (retryAfterDelay (parseRetryAfter (hdrs 0))),
              Send r1, Sleep (retryAfterDelay (parseRetryAfter (hdrs 1))),
              Send r2])))"
  using parseRetryAfter_cases [of hdr v]
    request_loop_429_retry [of attempt c rt "method" "fullURL" reader k hdr respBody "endpoint" lastErr tr]
    retryAfterDelay_in_range [of "parseRetryAfter hdr"]
    request_always_429 [of c rt body bodyReader "method" "endpoint" params hdrs]
  by blast

theorem request_rate_limit_witness:
  "maxRetries (exampleClient 3) = 3
   \<and> fst (request (exampleClient 3) (scripted script429) ''GET'' ''/agents'' None [])
       = Inl (NewRateLimitError 1)
   \<and> sleeps (snd (request (exampleClient 3) (scripted script429) ''GET'' ''/agents'' None []))
       = [2 * Second, 1 * Second]
   \<and> length (sends (snd (request (exampleClient 3) (scripted script429) ''GET'' ''/agents'' None [])))
       = 3"
proof -
  have 1: "maxRetries (exampleClient 3) = 3" by (simp add: exampleClient_def)
  have 2: "newBodyReader (scripted script429) None = Inr None" by (simp add: newBodyReader_def)
  have 3: "NewRequest_err (scripted script429) ''GET'' (buildURL (exampleClient 3) ''/agents'' []) = None"
    by (simp add: scripted_def)
  have 4: "\<forall>n<3. \<forall>r. \<exists>k b. Do (scripted script429) n r = (k, DoResponse 429 (hdrs429 n) (Inr b))"
    by (auto simp: scripted_def script429_def hdrs429_def less_Suc_eq numeral_3_eq_3)
  have p0: "parseRetryAfter (hdrs429 0) = 2"
    by (simp add: hdrs429_def parseRetryAfter_def Header_Get_def Atoi_def isDigit_def digits_value_def)
  have p1: "parseRetryAfter (hdrs429 1) = 1"
    by (simp add: hdrs429_def parseRetryAfter_def Header_Get_def)
  have p2: "parseRetryAfter (hdrs429 2) = 1"
    by (simp add: hdrs429_def parseRetryAfter_def Header_Get_def Atoi_def isDigit_def)
  have r0: "\<bar>parseRetryAfter (hdrs429 0)\<bar> \<le> 9223372036" using p0 by simp
  have r1: "\<bar>parseRetryAfter (hdrs429 1)\<bar> \<le> 9223372036" using p1 by simp
  from request_rate_limit [where hdr = "hdrs429 0"] r0
  have d0: "retryAfterDelay (parseRetryAfter (hdrs429 0)) = parseRetryAfter (hdrs429 0) * Second"
    by blast
  from request_rate_limit [of "hdrs429 1" _ _ "exampleClient 3" "scripted script429" "''GET''"
      _ _ _ _ "''/agents''" _ _ None None "[]" hdrs429] r1 1 2 3 4
  have d1: "retryAfterDelay (parseRetryAfter (hdrs429 1)) = parseRetryAfter (hdrs429 1) * Second"
    and ex: "\<exists>r0 r1 r2. request (exampleClient 3) (scripted script429) ''GET'' ''/agents'' None [] =
            (Inl (NewRateLimitError (parseRetryAfter (hdrs429 2))),
             [Send r0, Sleep (retryAfterDelay (parseRetryAfter (hdrs429 0))),
              Send r1, Sleep (retryAfterDelay (parseRetryAfter (hdrs429 1))),
              Send r2])"
    by blast+
  from ex obtain r0 r1 r2 where
    "request (exampleClient 3) (scripted script429) ''GET'' ''/agents'' None [] =
            (Inl (NewRateLimitError (parseRetryAfter (hdrs429 2))),
             [Send r0, Sleep (retryAfterDelay (parseRetryAfter (hdrs429 0))),
              Send r1, Sleep (retryAfterDelay (parseRetryAfter (hdrs429 1))),
              Send r2])"
    by blast
  then show ?thesis
    using 1 d0 d1 p0 p1 p2 by simp
qed

text \<open>
  Claim C6 as stated fails where the product with one second overflows: for
  \<^verbatim>\<open>Retry-After: 9223372037\<close> the duration passed to the sleep is negative.
\<close>

theorem request_rate_limit_counterexample:
  "parseRetryAfter [(''Retry-After'', [''9223372037''])] = 9223372037
   \<and> request (exampleClient 3)
        (scripted [DoResponse 429 [(''Retry-After'', [''9223372037''])] (Inr []),
                   DoResponse 200 [] (Inr ''ok'')])
        ''GET'' ''/health'' None []
      = (Inr ''ok'',
         [Send (attemptRequest (exampleClient 3) ''GET'' ''http://h/health'' None),
          Sleep (- 9223372036709551616),
          Send (attemptRequest (exampleClient 3) ''GET'' ''http://h/health'' None)])"
  by code_simp

subsection \<open>Calls that run the loop to its end\<close>

text \<open>
  Claim C10, as the code has it. A \<^verbatim>\<open>MaxRetries\<close> of 0 becomes 3 at
  construction; a negative one is kept, and then every call whose body is nil or marshals
  returns the error "max retries exceeded" with no send and no sleep.
\<close>

theorem request_negative_retries:
  assumes "NewClient env config = Inr c"
    and "cfg = (case config of None \<Rightarrow> emptyConfig | Some x \<Rightarrow> x)"
    and "newBodyReader rt body = Inr bodyReader"
  shows "(MaxRetries cfg = 0 \<longrightarrow> maxRetries c = 3)
       \<and> (MaxRetries cfg < 0 \<longrightarrow> maxRetries c = MaxRetries cfg
            \<and> request c rt method endpoint body params = (Inl MaxRetriesExceeded, []))"
proof -
  note m = NewClient_Inr(5) [OF assms(1,2)]
  have "request c rt method endpoint body params = (Inl MaxRetriesExceeded, [])"
    if "MaxRetries cfg < 0"
  proof -
    from that m have "\<not> 0 < maxRetries c" by simp
    then show ?thesis
      by (simp add: request_def assms(3) request_loop_done)
  qed
  with m show ?thesis by (simp add: defaultMaxRetries_def)
qed

theorem request_negative_retries_witness:
  "NewClient Map.empty
      (Some \<lparr>APIKey = ''k'', BaseURL = ''http://h'', Timeout = 0, MaxRetries = - 1, HTTPClient = None\<rparr>)
     = Inr (exampleClient (- 1))
   \<and> newBodyReader (scripted [DoResponse 200 [] (Inr ''ok'')]) (Some (Encodes ''{}'')) = Inr (Some ''{}'')
   \<and> request (exampleClient (- 1)) (scripted [DoResponse 200 [] (Inr ''ok'')])
        ''POST'' ''/tasks'' (Some (Encodes ''{}'')) []
      = (Inl (PlainError \<lparr>Message = ''max retries exceeded'', Code = [], StatusCode = 0\<rparr>), [])"
proof -
  have h: "NewClient Map.empty
      (Some \<lparr>APIKey = ''k'', BaseURL = ''http://h'', Timeout = 0, MaxRetries = - 1, HTTPClient = None\<rparr>)
     = Inr (exampleClient (- 1))"
    by (simp add: NewClient_def Getenv_def TrimSuffix_def HasSuffix_def defaultTimeout_def
        Second_def exampleClient_def)
  have b: "newBodyReader (scripted [DoResponse 200 [] (Inr ''ok'')]) (Some (Encodes ''{}''))
      = Inr (Some ''{}'')"
    by (simp add: newBodyReader_def scripted_def json_Marshal_def)
  show ?thesis
    using h b request_negative_retries [OF h _ b, of
        "\<lparr>APIKey = ''k'', BaseURL = ''http://h'', Timeout = 0, MaxRetries = - 1, HTTPClient = None\<rparr>"
        "''POST''" "''/tasks''" "[]"]
    by (simp add: MaxRetriesExceeded_def)
qed

text \<open>
  Claim C10 as stated fails for a body that does not marshal: the call returns the
  connection error of the marshalling step, not "max retries exceeded".
\<close>

theorem request_negative_retries_counterexample:
  "NewClient Map.empty
      (Some \<lparr>APIKey = ''k'', BaseURL = ''http://h'', Timeout = 0, MaxRetries = - 1, HTTPClient = None\<rparr>)
     = Inr (exampleClient (- 1))
   \<and> request (exampleClient (- 1)) (scripted []) ''POST'' ''/tasks'' (Some Unsupported) []
      = (Inl (NewConnectionError ''failed to marshal request body'' ''json: unsupported type''), [])
   \<and> NewConnectionError ''failed to marshal request body'' ''json: unsupported type''
      \<noteq> MaxRetriesExceeded"
  by (simp add: NewClient_def Getenv_def TrimSuffix_def HasSuffix_def defaultTimeout_def
      Second_def exampleClient_def request_def newBodyReader_def scripted_def json_Marshal_def
      NewConnectionError_def MaxRetriesExceeded_def)

text \<open>
  Claim C1 does not hold of the Go client. The \<^verbatim>\<open>default\<close> branch of the status
  switch stores the API error in \<^verbatim>\<open>lastErr\<close> and the loop goes on to the next
  attempt. With three attempts, a 500 followed by a 200 gives two sends and the body of the
  second response; the error of the first is lost.
\<close>

theorem request_other_status_retried:
  "request (exampleClient 3)
      (scripted [DoResponse 500 [] (Inr ''boom''), DoResponse 200 [] (Inr ''ok'')])
      ''GET'' ''/health'' None []
    = (Inr ''ok'',
       [Send (attemptRequest (exampleClient 3) ''GET'' ''http://h/health'' None),
        Send (attemptRequest (exampleClient 3) ''GET'' ''http://h/health'' None)])"
  by code_simp

text \<open>
  Claim C2 does not hold of the Go client. The body reader is created once, before the
  loop, and every attempt passes the same reader to the new request. A transport that has
  read the body leaves nothing for the next attempt: the first request carries the
  marshalled body, the retries an empty one.
\<close>

theorem request_body_consumed:
  "map req_Body (sends (snd (request (exampleClient 3)
      (scripted [DoResponse 429 [] (Inr []), DoResponse 429 [] (Inr []), DoResponse 200 [] (Inr ''ok'')])
      ''POST'' ''/tasks'' (Some (Encodes ''{}'')) [])))
    = [''{}'', [], []]"
  by code_simp

text \<open>
  Claim C4 does not hold of the Go client. After a failed send the loop sleeps
  \<open>2 ^ attempt\<close> seconds without asking whether an attempt remains. With three attempts
  that all fail there are three sends and three sleeps, the last one of 4 seconds after the
  final attempt, and then the connection error.
\<close>

theorem request_sleeps_after_last_failure:
  "request (exampleClient 3)
      (scripted [DoError ''refused'', DoError ''refused'', DoError ''refused''])
      ''GET'' ''/health'' None []
    = (Inl (NewConnectionError ''request failed'' ''refused''),
       [Send (attemptRequest (exampleClient 3) ''GET'' ''http://h/health'' None),
        Sleep 1000000000,
        Send (attemptRequest (exampleClient 3) ''GET'' ''http://h/health'' None),
        Sleep 2000000000,
        Send (attemptRequest (exampleClient 3) ''GET'' ''http://h/health'' None),
        Sleep 4000000000])"
  by code_simp

section \<open>The query string\<close>

lemma join_amp_Cons: "join_amp (x # xs) = (if xs = [] then x else x @ ''&'' @ join_amp xs)"
  by (cases xs) simp_all

lemma join_amp_append:
  "join_amp (xs @ ys) =
     (if xs = [] then join_amp ys else if ys = [] then join_amp xs
      else join_amp xs @ ''&'' @ join_amp ys)"
  by (induction xs rule: join_amp.induct) (simp_all add: join_amp_Cons)

lemma join_amp_eq_Nil: "[] \<notin> set xs \<Longrightarrow> join_amp xs = [] \<longleftrightarrow> xs = []"
  by (cases xs) (auto simp: join_amp_Cons)

text \<open>The buffer after writing items to it, each non-empty.\<close>

lemma Encode_values_join:
  "Encode_values ke vs buf =
     (if vs = [] then buf
      else if buf = [] then join_amp (map (\<lambda>x. ke @ ''='' @ QueryEscape x) vs)
      else buf @ ''&'' @ join_amp (map (\<lambda>x. ke @ ''='' @ QueryEscape x) vs))"
proof (induction vs arbitrary: buf)
  case Nil
  show ?case by simp
next
  case (Cons x vs)
  show ?case by (simp add: Cons.IH join_amp_Cons)
qed

lemma query_string_append:
  "query_string (xs @ ys) =
     (if xs = [] then query_string ys else if ys = [] then query_string xs
      else query_string xs @ ''&'' @ query_string ys)"
  by (simp add: query_string_def join_amp_append)

lemma query_string_eq_Nil: "query_string xs = [] \<longleftrightarrow> xs = []"
  unfolding query_string_def by (subst join_amp_eq_Nil) auto

lemma Encode_values_query:
  "Encode_values (QueryEscape k) vs buf =
     (if vs = [] then buf
      else if buf = [] then query_string (map (Pair k) vs)
      else buf @ ''&'' @ query_string (map (Pair k) vs))"
  by (simp add: Encode_values_join query_string_def comp_def)

lemma Encode_keys_query:
  "Encode_keys v ks buf =
     (let kvs = concat (map (\<lambda>k. map (Pair k) (Values_lookup v k)) ks)
      in if kvs = [] then buf
         else if buf = [] then query_string kvs
         else buf @ ''&'' @ query_string kvs)"
proof (induction ks arbitrary: buf)
  case Nil
  show ?case by simp
next
  case (Cons k ks)
  show ?case
    by (simp add: Cons.IH Encode_values_query Let_def query_string_append query_string_eq_Nil)
qed

lemma query_string_Nil: "query_string [] = []"
  by (simp add: query_string_def)

lemma Encode_query_string: "Encode v = query_string (pairs_by_key v)"
proof -
  have "Encode v = (if pairs_by_key v = [] then [] else query_string (pairs_by_key v))"
    by (simp add: Encode_def Encode_keys_query pairs_by_key_def Let_def)
  then show ?thesis
    by (simp add: query_string_Nil)
qed

lemma sorted_map_const: "sorted (map (\<lambda>x. k) xs)"
  by (induction xs) auto

lemma sorted_keys_concat:
  "sorted ks \<Longrightarrow> sorted (map fst (concat (map (\<lambda>k. map (Pair k) (f k)) ks)))"
proof (induction ks)
  case Nil
  show ?case by simp
next
  case (Cons k ks)
  then show ?case
    by (auto simp: sorted_append comp_def sorted_map_const)
qed

lemma pairs_by_key_sorted: "sorted (map fst (pairs_by_key v))"
  unfolding pairs_by_key_def by (rule sorted_keys_concat) simp

lemma pairs_by_key_order_free:
  assumes "distinct (map fst v)" and "distinct (map fst w)" and "set w = set v"
  shows "pairs_by_key w = pairs_by_key v"
proof -
  have "map_of w = map_of v"
    using assms by (simp add: map_of_inject_set)
  then have l: "Values_lookup w = Values_lookup v"
    by (simp add: Values_lookup_def fun_eq_iff)
  have "set (map fst w) = set (map fst v)"
    using assms(3) by simp
  then have "sort (map fst w) = sort (map fst v)"
    using assms(1,2) by (intro sorted_distinct_set_unique) simp_all
  with l show ?thesis by (simp add: pairs_by_key_def)
qed

text \<open>
  Claim C3, as the code has it. The query string is the \<open>key=value\<close> pairs joined by
  \<open>&\<close>, with the keys in ascending byte-wise order, whatever the order in which they
  were set: two parameter sets with the same entries encode to the same string. For
  \<open>status = pending\<close> set before \<open>limit = 10\<close> the URL ends in
  \<open>?limit=10&status=pending\<close>, both values verbatim.
\<close>

theorem Encode_sorted_by_key:
  "Encode v = query_string (pairs_by_key v)
   \<and> sorted (map fst (pairs_by_key v))
   \<and> (distinct (map fst v) \<and> distinct (map fst w) \<and> set w = set v \<longrightarrow> Encode w = Encode v)
   \<and> buildURL (exampleClient 3) ''/tasks''
        (Values_Set ''limit'' ''10'' (Values_Set ''status'' ''pending'' []))
      = ''http://h/tasks?limit=10&status=pending''"
proof -
  have "buildURL (exampleClient 3) ''/tasks''
        (Values_Set ''limit'' ''10'' (Values_Set ''status'' ''pending'' []))
      = ''http://h/tasks?limit=10&status=pending''"
    by (simp add: buildURL_def exampleClient_def TrimPrefix_def HasPrefix_def Encode_def
        Values_Set_def Values_lookup_def shouldEscape_def)
  then show ?thesis
    using pairs_by_key_order_free [of v w]
    by (simp add: Encode_query_string pairs_by_key_sorted)
qed

theorem Encode_sorted_by_key_witness:
  "distinct (map fst (Values_Set ''limit'' ''10'' (Values_Set ''status'' ''pending'' [])))
   \<and> distinct (map fst (Values_Set ''status'' ''pending'' (Values_Set ''limit'' ''10'' [])))
   \<and> set (Values_Set ''status'' ''pending'' (Values_Set ''limit'' ''10'' []))
       = set (Values_Set ''limit'' ''10'' (Values_Set ''status'' ''pending'' []))
   \<and> Encode (Values_Set ''status'' ''pending'' (Values_Set ''limit'' ''10'' []))
       = Encode (Values_Set ''limit'' ''10'' (Values_Set ''status'' ''pending'' []))"
proof -
  have 1: "distinct (map fst (Values_Set ''limit'' ''10'' (Values_Set ''status'' ''pending'' [])))"
    by (simp add: Values_Set_def)
  have 2: "distinct (map fst (Values_Set ''status'' ''pending'' (Values_Set ''limit'' ''10'' [])))"
    by (simp add: Values_Set_def)
  have 3: "set (Values_Set ''status'' ''pending'' (Values_Set ''limit'' ''10'' []))
       = set (Values_Set ''limit'' ''10'' (Values_Set ''status'' ''pending'' []))"
    by (auto simp: Values_Set_def)
  show ?thesis
    using 1 2 3 Encode_sorted_by_key
      [of "Values_Set ''limit'' ''10'' (Values_Set ''status'' ''pending'' [])"
          "Values_Set ''status'' ''pending'' (Values_Set ''limit'' ''10'' [])"]
    by blast
qed

text \<open>
  Claim C3 as stated fails: \<open>status\<close> is set first and \<open>limit\<close> second, and the
  query string has \<open>limit\<close> first.
\<close>

theorem Encode_insertion_order_counterexample:
  "Values_Set ''limit'' ''10'' (Values_Set ''status'' ''pending'' [])
     = [(''status'', [''pending'']), (''limit'', [''10''])]
   \<and> Encode (Values_Set ''limit'' ''10'' (Values_Set ''status'' ''pending'' []))
     = ''limit=10&status=pending''"
  by (simp add: Encode_def Values_Set_def Values_lookup_def shouldEscape_def)

end
